theory Spec2Isabelle
  imports Complex_Main
begin

section \<open>Strings and numbers of the host language\<close>

text \<open>
  A JavaScript string is modelled as a \<^typ>\<open>string\<close>, one \<^typ>\<open>char\<close> per code unit
  below 256. The strings the program itself writes (markers, paths, JSON keys, labels) are
  ASCII.
\<close>

definition digit_char :: "nat \<Rightarrow> char" where
  "digit_char d = ''0123456789'' ! (d mod 10)"

text \<open>\<^verbatim>\<open>String(n)\<close> of a non-negative integer: its decimal digits.\<close>

fun nat_to_string :: "nat \<Rightarrow> string" where
  "nat_to_string n =
     (if n < 10 then [digit_char n]
      else nat_to_string (n div 10) @ [digit_char (n mod 10)])"

declare nat_to_string.simps [simp del]

text \<open>
  \<^verbatim>\<open>String(i)\<close> of an integer of magnitude below \<open>10\<^sup>2\<^sup>1\<close>, where the host language
  prints plain digits; \<^verbatim>\<open>-0\<close> prints as \<^verbatim>\<open>0\<close>.
\<close>

definition int_to_string :: "int \<Rightarrow> string" where
  "int_to_string i =
     (if i < 0 then CHR ''-'' # nat_to_string (nat (- i)) else nat_to_string (nat i))"

text \<open>\<^verbatim>\<open>s.startsWith(p)\<close> and \<^verbatim>\<open>s.includes(p)\<close>.\<close>

fun startsWith :: "string \<Rightarrow> string \<Rightarrow> bool" where
  "startsWith s [] = True"
| "startsWith [] (p # ps) = False"
| "startsWith (c # cs) (p # ps) = (c = p \<and> startsWith cs ps)"

fun includes_str :: "string \<Rightarrow> string \<Rightarrow> bool" where
  "includes_str [] p = (p = [])"
| "includes_str (c # cs) p = (startsWith (c # cs) p \<or> includes_str cs p)"

text \<open>
  \<^verbatim>\<open>s.trim()\<close> removes white space and line terminators from both ends. Among the code
  units below 256 these are TAB, LF, VT, FF, CR, SPACE and NBSP.
\<close>

definition is_white_space :: "char \<Rightarrow> bool" where
  "is_white_space c =
     (c = CHR 0x09 \<or> c = CHR 0x0A \<or> c = CHR 0x0B \<or> c = CHR 0x0C \<or> c = CHR 0x0D \<or>
      c = CHR 0x20 \<or> c = CHR 0xA0)"

definition trim :: "string \<Rightarrow> string" where
  "trim s = rev (dropWhile is_white_space (rev (dropWhile is_white_space s)))"

section \<open>The sidecar: gateway supervisor and health endpoint\<close>

subsection \<open>JSON.stringify on the objects the server sends\<close>

text \<open>
  The objects passed to \<^verbatim>\<open>JSON.stringify\<close> are flat: every member is a string or a
  number, and the strings are literals of the program without control characters. In a
  string, the double quote and the backslash are escaped with a backslash.
\<close>

datatype json_value = JString string | JNumber int

type_synonym json_object = "(string \<times> json_value) list"

text \<open>A string between double quotes, as it stands in the text of a body.\<close>

abbreviation (input) quoted :: "string \<Rightarrow> string" where
  "quoted s \<equiv> CHR 0x22 # s @ [CHR 0x22]"

definition json_escape :: "string \<Rightarrow> string" where
  "json_escape s =
     concat (map (\<lambda>c. if c = CHR 0x22 \<or> c = CHR 0x5C then [CHR 0x5C, c] else [c]) s)"

definition json_quote :: "string \<Rightarrow> string" where
  "json_quote s = CHR 0x22 # json_escape s @ [CHR 0x22]"

fun stringify_value :: "json_value \<Rightarrow> string" where
  "stringify_value (JString s) = json_quote s"
| "stringify_value (JNumber n) = int_to_string n"

fun stringify_members :: "json_object \<Rightarrow> string" where
  "stringify_members [] = []"
| "stringify_members [(k, v)] = json_quote k @ '':'' @ stringify_value v"
| "stringify_members ((k, v) # m # ms) =
     json_quote k @ '':'' @ stringify_value v @ '','' @ stringify_members (m # ms)"

definition JSON_stringify :: "json_object \<Rightarrow> string" where
  "JSON_stringify obj = ''{'' @ stringify_members obj @ ''}''"

subsection \<open>State of the sidecar process\<close>

definition OPENCLAW_PORT :: nat where
  "OPENCLAW_PORT = 18789"

text \<open>
  The two callbacks the program hands to \<^verbatim>\<open>setTimeout\<close>: \<^verbatim>\<open>startOpenClaw\<close> itself
  (from the close handler) and the arrow function that sets \<^verbatim>\<open>openclawHealthy = true\<close>.
\<close>

datatype callback = StartOpenClaw | MarkHealthy

text \<open>
  The module's two variables, together with what the runtime holds for it: the pending
  timers (time due in milliseconds, callback) in the order they were registered, the
  clock in milliseconds, the argument vector of every \<^verbatim>\<open>spawn\<close> call made so far,
  and the children that have not closed yet. A child is named by the number of spawns
  made before it; \<^verbatim>\<open>null\<close> is \<^term>\<open>None\<close>. Console output, the environment handed to
  the child and the two signal handlers that shut the sidecar down are not modelled.
\<close>

record sidecar =
  openclawHealthy :: bool
  openclawProcess :: "nat option"
  timers :: "(nat \<times> callback) list"
  clock :: nat
  spawned :: "string list list"
  children :: "nat list"

definition initial_sidecar :: sidecar where
  "initial_sidecar =
     \<lparr>openclawHealthy = False, openclawProcess = None, timers = [], clock = 0,
      spawned = [], children = []\<rparr>"

text \<open>\<^verbatim>\<open>setTimeout(cb, delay)\<close>: the callback is due \<open>delay\<close> milliseconds from now.\<close>

definition setTimeout :: "callback \<Rightarrow> nat \<Rightarrow> sidecar \<Rightarrow> sidecar" where
  "setTimeout cb delay s = s\<lparr>timers := timers s @ [(clock s + delay, cb)]\<rparr>"

text \<open>
  The argument vector of the gateway: the token is appended when the environment
  variable \<^verbatim>\<open>OPENCLAW_GATEWAY_TOKEN\<close> is set and not empty.
\<close>

definition gateway_args :: "string option \<Rightarrow> string list" where
  "gateway_args tok =
     [''openclaw'', ''gateway'', ''--port'', nat_to_string OPENCLAW_PORT, ''--bind'', ''lan'',
      ''--allow-unconfigured'']
     @ (case tok of
          None \<Rightarrow> []
        | Some t \<Rightarrow> if t = [] then [] else [''--token'', t])"

text \<open>
  \<^verbatim>\<open>startOpenClaw\<close>: spawn the child, keep its handle, and register the timer that marks
  the sidecar healthy 3000 ms later. The three event handlers it attaches to the child
  are the functions \<open>on_stdout_data\<close>, \<open>on_stderr_data\<close> and \<open>on_close\<close> below.
\<close>

definition startOpenClaw :: "string option \<Rightarrow> sidecar \<Rightarrow> sidecar" where
  "startOpenClaw tok s =
     (let pid = length (spawned s);
          s1 = s\<lparr>spawned := spawned s @ [gateway_args tok],
                 children := children s @ [pid],
                 openclawProcess := Some pid\<rparr>
      in setTimeout MarkHealthy 3000 s1)"

definition on_stdout_data :: "string \<Rightarrow> sidecar \<Rightarrow> sidecar" where
  "on_stdout_data chunk s =
     (if includes_str chunk ''listening'' \<or> includes_str chunk ''started''
      then s\<lparr>openclawHealthy := True\<rparr> else s)"

definition on_stderr_data :: "string \<Rightarrow> sidecar \<Rightarrow> sidecar" where
  "on_stderr_data chunk s = s"

text \<open>The close handler; the exit code (a number or \<^verbatim>\<open>null\<close>) is only logged.\<close>

definition on_close :: "int option \<Rightarrow> sidecar \<Rightarrow> sidecar" where
  "on_close code s = setTimeout StartOpenClaw 5000 (s\<lparr>openclawHealthy := False\<rparr>)"

definition run_callback :: "string option \<Rightarrow> callback \<Rightarrow> sidecar \<Rightarrow> sidecar" where
  "run_callback tok cb s =
     (case cb of
        StartOpenClaw \<Rightarrow> startOpenClaw tok s
      | MarkHealthy \<Rightarrow> s\<lparr>openclawHealthy := True\<rparr>)"

subsection \<open>The event loop\<close>

text \<open>
  What can happen to the running sidecar: a live child writes a chunk to stdout or
  stderr, a live child closes, time passes (never beyond the next timer due), or the
  timer that is due first fires (the one registered first among equals).
\<close>

datatype event =
  Stdout nat string
| Stderr nat string
| Close nat "int option"
| Elapse nat
| Fire

fun earliest :: "(nat \<times> callback) list \<Rightarrow> (nat \<times> callback) option" where
  "earliest [] = None"
| "earliest (t # ts) =
     (case earliest ts of
        None \<Rightarrow> Some t
      | Some u \<Rightarrow> if fst u < fst t then Some u else Some t)"

definition step :: "string option \<Rightarrow> event \<Rightarrow> sidecar \<Rightarrow> sidecar option" where
  "step tok e s =
     (case e of
        Stdout pid chunk \<Rightarrow>
          if pid \<in> set (children s) then Some (on_stdout_data chunk s) else None
      | Stderr pid chunk \<Rightarrow>
          if pid \<in> set (children s) then Some (on_stderr_data chunk s) else None
      | Close pid code \<Rightarrow>
          if pid \<in> set (children s)
          then Some (on_close code (s\<lparr>children := removeAll pid (children s)\<rparr>))
          else None
      | Elapse d \<Rightarrow>
          if list_all (\<lambda>t. clock s + d \<le> fst t) (timers s)
          then Some (s\<lparr>clock := clock s + d\<rparr>) else None
      | Fire \<Rightarrow>
          (case earliest (timers s) of
             None \<Rightarrow> None
           | Some t \<Rightarrow>
               if fst t \<le> clock s
               then Some (run_callback tok (snd t) (s\<lparr>timers := remove1 t (timers s)\<rparr>))
               else None))"

fun run :: "string option \<Rightarrow> event list \<Rightarrow> sidecar \<Rightarrow> sidecar option" where
  "run tok [] s = Some s"
| "run tok (e # es) s =
     (case step tok e s of None \<Rightarrow> None | Some s' \<Rightarrow> run tok es s')"

text \<open>
  A child that closes the moment it is spawned, \<open>n\<close> times over, starting with child
  \<open>k\<close>: the health timer of its spawn fires after 3000 ms, the restart timer after
  another 2000 ms.
\<close>

fun crash_loop :: "nat \<Rightarrow> nat \<Rightarrow> event list" where
  "crash_loop k 0 = []"
| "crash_loop k (Suc n) =
     [Close k (Some 1), Elapse 3000, Fire, Elapse 2000, Fire] @ crash_loop (Suc k) n"

subsection \<open>The HTTP server\<close>

record response =
  status :: nat
  headers :: "(string \<times> string) list"
  body :: string

text \<open>
  The request handler; \<open>req_url\<close> is \<^verbatim>\<open>req.url\<close>, the request target as it was
  received (path and, when there is one, query string).
\<close>

definition server :: "sidecar \<Rightarrow> string \<Rightarrow> response" where
  "server s req_url =
     (if req_url = ''/health'' \<or> req_url = ''/'' then
        (if openclawHealthy s then
           \<lparr>status = 200, headers = [(''Content-Type'', ''application/json'')],
            body = JSON_stringify
              [(''status'', JString ''ok''), (''openclaw'', JString ''running''),
               (''wsPort'', JNumber (int OPENCLAW_PORT))]\<rparr>
         else
           \<lparr>status = 503, headers = [(''Content-Type'', ''application/json'')],
            body = JSON_stringify [(''status'', JString ''starting'')]\<rparr>)
      else
        \<lparr>status = 302,
         headers = [(''Location'', ''http://localhost:'' @ nat_to_string OPENCLAW_PORT @ req_url)],
         body = []\<rparr>)"

text \<open>
  The path of a request target: what stands before the query string, if there is one.
  The handler itself never takes a target apart.
\<close>

definition path_of :: "string \<Rightarrow> string" where
  "path_of req_url = takeWhile (\<lambda>c. c \<noteq> CHR ''?'') req_url"

section \<open>The desktop application\<close>

subsection \<open>The store\<close>

datatype AppScreen = ScreenLoading | ScreenSettings | ScreenChat

record GatewayInfo =
  url :: string
  port :: int
  token :: string

datatype GatewayStatus =
  Stopped
| Starting
| Running GatewayInfo
| GatewayError string

text \<open>
  The progress of a download is a \<^verbatim>\<open>number\<close>; it is modelled as a real (the values
  \<^verbatim>\<open>NaN\<close> and the infinities are left out).
\<close>

datatype RuntimeStatus =
  Checking
| Downloading real
| Installed string
| RuntimeError string

record AppState =
  screen :: AppScreen
  gatewayStatus :: GatewayStatus
  runtimeStatus :: RuntimeStatus
  apiKeyConfigured :: bool
  error :: "string option"

definition initial_state :: AppState where
  "initial_state =
     \<lparr>screen = ScreenLoading, gatewayStatus = Stopped, runtimeStatus = Checking,
      apiKeyConfigured = False, error = None\<rparr>"

text \<open>
  The argument of the store's \<^verbatim>\<open>set\<close>: an object with some of the fields. A field that
  is absent is \<^term>\<open>None\<close>; \<^verbatim>\<open>set\<close> copies the fields that are present over the state.
\<close>

record PartialState =
  set_screen :: "AppScreen option"
  set_gatewayStatus :: "GatewayStatus option"
  set_runtimeStatus :: "RuntimeStatus option"
  set_apiKeyConfigured :: "bool option"
  set_error :: "string option option"

definition no_fields :: PartialState where
  "no_fields =
     \<lparr>set_screen = None, set_gatewayStatus = None, set_runtimeStatus = None,
      set_apiKeyConfigured = None, set_error = None\<rparr>"

definition set_state :: "PartialState \<Rightarrow> AppState \<Rightarrow> AppState" where
  "set_state p s =
     \<lparr>screen = (case set_screen p of None \<Rightarrow> screen s | Some v \<Rightarrow> v),
      gatewayStatus = (case set_gatewayStatus p of None \<Rightarrow> gatewayStatus s | Some v \<Rightarrow> v),
      runtimeStatus = (case set_runtimeStatus p of None \<Rightarrow> runtimeStatus s | Some v \<Rightarrow> v),
      apiKeyConfigured =
        (case set_apiKeyConfigured p of None \<Rightarrow> apiKeyConfigured s | Some v \<Rightarrow> v),
      error = (case set_error p of None \<Rightarrow> error s | Some v \<Rightarrow> v)\<rparr>"

definition setScreen :: "AppScreen \<Rightarrow> AppState \<Rightarrow> AppState" where
  "setScreen v = set_state (no_fields\<lparr>set_screen := Some v\<rparr>)"

definition setGatewayStatus :: "GatewayStatus \<Rightarrow> AppState \<Rightarrow> AppState" where
  "setGatewayStatus v = set_state (no_fields\<lparr>set_gatewayStatus := Some v\<rparr>)"

definition setRuntimeStatus :: "RuntimeStatus \<Rightarrow> AppState \<Rightarrow> AppState" where
  "setRuntimeStatus v = set_state (no_fields\<lparr>set_runtimeStatus := Some v\<rparr>)"

definition setApiKeyConfigured :: "bool \<Rightarrow> AppState \<Rightarrow> AppState" where
  "setApiKeyConfigured v = set_state (no_fields\<lparr>set_apiKeyConfigured := Some v\<rparr>)"

definition setError :: "string option \<Rightarrow> AppState \<Rightarrow> AppState" where
  "setError v = set_state (no_fields\<lparr>set_error := Some v\<rparr>)"

subsection \<open>The handlers of the settings screen\<close>

text \<open>
  The state the component keeps for itself: the text of the key field, the saving flag,
  and the runtime details it polls (of which only the version is read; \<^verbatim>\<open>null\<close> is
  \<^term>\<open>None\<close>).
\<close>

record SettingsState =
  apiKey :: string
  saving :: bool
  runtimeDetails :: "string option"

text \<open>
  A value caught by \<^verbatim>\<open>catch (err)\<close>: an \<^verbatim>\<open>Error\<close> with its message, or any other
  value, given by what \<^verbatim>\<open>String(err)\<close> returns for it.
\<close>

datatype thrown = ErrorObject string | OtherValue string

fun error_message :: "thrown \<Rightarrow> string" where
  "error_message (ErrorObject m) = m"
| "error_message (OtherValue v) = v"

text \<open>
  The bridge to the host (\<^verbatim>\<open>tauri\<close>) is outside these sources. Its answers are
  parameters: for each command, whether the promise resolves (\<^term>\<open>None\<close>, or the value
  it resolves to) or rejects with a thrown value. The calls a handler issues are returned
  in order.
\<close>

record Tauri =
  setApiKey_result :: "string \<Rightarrow> thrown option"
  startGateway_result :: "thrown + GatewayInfo"
  installRuntime_result :: "thrown option"

datatype tauri_call = SetApiKey string | StartGateway | InstallRuntime


definition is_installed :: "RuntimeStatus \<Rightarrow> bool" where
  "is_installed r = (case r of Installed v \<Rightarrow> True | _ \<Rightarrow> False)"

text \<open>The \<^verbatim>\<open>catch\<close> block of \<^verbatim>\<open>handleSave\<close>.\<close>

definition handleSave_catch :: "thrown \<Rightarrow> AppState \<Rightarrow> AppState" where
  "handleSave_catch err st =
     (let message = error_message err in
      setGatewayStatus (GatewayError message) (setError (Some message) st))"

definition handleSave ::
  "Tauri \<Rightarrow> AppState \<Rightarrow> SettingsState \<Rightarrow> AppState \<times> SettingsState \<times> tauri_call list" where
  "handleSave tauri st loc =
     (if trim (apiKey loc) = [] then (st, loc, [])
      else if \<not> is_installed (runtimeStatus st) then
        (setError (Some ''Please wait for the runtime to finish installing.'') st, loc, [])
      else
        (let st1 = setError None st;
             key = trim (apiKey loc)
         in case setApiKey_result tauri key of
              Some err \<Rightarrow>
                (handleSave_catch err st1, loc\<lparr>saving := False\<rparr>, [SetApiKey key])
            | None \<Rightarrow>
                (let st2 = setGatewayStatus Starting (setApiKeyConfigured True st1)
                 in case startGateway_result tauri of
                      Inl err \<Rightarrow>
                        (handleSave_catch err st2, loc\<lparr>saving := False\<rparr>,
                         [SetApiKey key, StartGateway])
                    | Inr info \<Rightarrow>
                        (setScreen ScreenChat (setGatewayStatus (Running info) st2),
                         loc\<lparr>saving := False\<rparr>, [SetApiKey key, StartGateway]))))"

subsection \<open>What the screens render\<close>

text \<open>
  The element tree a component returns, without the presentation attributes
  (\<^verbatim>\<open>className\<close> and the like): text, a named icon, an element with its tag and children, a
  link, a button with its click handler and its \<^verbatim>\<open>disabled\<close> flag, the input with its
  value, \<^verbatim>\<open>disabled\<close> and \<^verbatim>\<open>autoFocus\<close>, the filled part of the progress bar with its
  width in percent, and a line break.
\<close>

datatype click = HandleSave | HandleInstallRuntime

datatype node =
  Text string
| Icon string
| Elem string "node list"
| Link string "node list"
| Button click bool "node list"
| Input string bool bool
| Bar real
| Br

text \<open>The text a tree shows, in document order, and all the trees inside a tree.\<close>

fun text_content :: "node \<Rightarrow> string" where
  "text_content (Text t) = t"
| "text_content (Icon n) = []"
| "text_content (Elem tag ns) = concat (map text_content ns)"
| "text_content (Link href ns) = concat (map text_content ns)"
| "text_content (Button h d ns) = concat (map text_content ns)"
| "text_content (Input v d a) = []"
| "text_content (Bar w) = []"
| "text_content Br = []"

fun subtrees :: "node \<Rightarrow> node list" where
  "subtrees (Elem tag ns) = Elem tag ns # concat (map subtrees ns)"
| "subtrees (Link href ns) = Link href ns # concat (map subtrees ns)"
| "subtrees (Button h d ns) = Button h d ns # concat (map subtrees ns)"
| "subtrees n = [n]"

text \<open>\<^verbatim>\<open>Math.round\<close>: the nearest integer, a half rounded up.\<close>

definition Math_round :: "real \<Rightarrow> int" where
  "Math_round x = \<lfloor>x + 1 / 2\<rfloor>"

text \<open>
  \<^verbatim>\<open>{c && x}\<close> in an element's children: \<open>x\<close> when \<open>c\<close> is truthy, nothing otherwise. A
  string that may be \<^verbatim>\<open>null\<close> is truthy when it is present and not empty.
\<close>

definition shown_if :: "bool \<Rightarrow> node \<Rightarrow> node list" where
  "shown_if c x = (if c then [x] else [])"

definition shown_if_text :: "string option \<Rightarrow> (string \<Rightarrow> node) \<Rightarrow> node list" where
  "shown_if_text v f = (case v of None \<Rightarrow> [] | Some t \<Rightarrow> if t = [] then [] else [f t])"

record StatusContent =
  icon :: string
  heading :: string
  subtext :: "string option"
  progress :: "real option"

definition getStatusContent :: "RuntimeStatus \<Rightarrow> StatusContent" where
  "getStatusContent r =
     (case r of
        Checking \<Rightarrow>
          \<lparr>icon = ''Loader2'', heading = ''Checking system...'', subtext = None,
           progress = None\<rparr>
      | Downloading p \<Rightarrow>
          \<lparr>icon = ''Download'', heading = ''Setting up (first time only)'',
           subtext = Some (''Downloading Node.js runtime... '' @ int_to_string (Math_round p)
                           @ ''%''),
           progress = Some p\<rparr>
      | Installed v \<Rightarrow>
          \<lparr>icon = ''Check'', heading = ''Starting...'', subtext = None, progress = None\<rparr>
      | RuntimeError m \<Rightarrow>
          \<lparr>icon = ''AlertCircle'', heading = ''Setup failed'', subtext = Some m,
           progress = None\<rparr>)"

definition is_downloading :: "RuntimeStatus \<Rightarrow> bool" where
  "is_downloading r = (case r of Downloading p \<Rightarrow> True | _ \<Rightarrow> False)"

definition Loading :: "AppState \<Rightarrow> node" where
  "Loading st =
     (let content = getStatusContent (runtimeStatus st) in
      Elem ''div''
        [Elem ''div''
           ([Icon (icon content), Elem ''p'' [Text (heading content)]]
            @ shown_if_text (subtext content) (\<lambda>t. Elem ''p'' [Text t])
            @ (case progress content of
                 None \<Rightarrow> []
               | Some p \<Rightarrow> [Elem ''div'' [Bar p]])
            @ shown_if (is_downloading (runtimeStatus st))
                (Elem ''p''
                   [Text ''This downloads a lightweight Node.js runtime (~45MB).'', Br,
                    Text ''You won't need to do this again.'']))])"

text \<open>The panel of the settings screen that shows while the runtime is not installed.\<close>

definition runtime_panel :: "RuntimeStatus \<Rightarrow> node" where
  "runtime_panel r =
     Elem ''div''
       [case r of
          Downloading p \<Rightarrow>
            Elem ''div''
              [Elem ''div''
                 [Icon ''Download'',
                  Elem ''div''
                    [Elem ''p'' [Text ''Setting up...''],
                     Elem ''p''
                       [Text ''Downloading runtime ('', Text (int_to_string (Math_round p)),
                        Text ''%)'']]],
               Elem ''div'' [Bar p]]
        | RuntimeError m \<Rightarrow>
            Elem ''div''
              [Icon ''AlertCircle'',
               Elem ''div''
                 [Elem ''p'' [Text ''Setup failed''],
                  Elem ''p'' [Text m],
                  Button HandleInstallRuntime False [Text ''Try again'']]]
        | _ \<Rightarrow>
            Elem ''div'' [Icon ''Loader2'', Elem ''p'' [Text ''Checking system...'']]]"

definition Settings :: "AppState \<Rightarrow> SettingsState \<Rightarrow> node" where
  "Settings st loc =
     (let runtimeReady = is_installed (runtimeStatus st);
          blank = (trim (apiKey loc) = [])
      in
      Elem ''div''
        [Elem ''div''
           ([Elem ''div''
               [Elem ''h1'' [Text ''Enter your API key''],
                Elem ''p'' [Text ''Your key stays on your computer. We never see it.'']]]
            @ shown_if (\<not> runtimeReady) (runtime_panel (runtimeStatus st))
            @ shown_if_text (error st)
                (\<lambda>t. Elem ''div''
                   [Elem ''p'' [Text ''Something went wrong''], Elem ''p'' [Text t]])
            @ [Elem ''div''
                 [Elem ''div'' [Input (apiKey loc) (saving loc \<or> \<not> runtimeReady) runtimeReady],
                  Button HandleSave (blank \<or> saving loc \<or> \<not> runtimeReady)
                    (if saving loc then [Icon ''Loader2'', Text ''Starting...'']
                     else if \<not> runtimeReady then [Text ''Waiting for setup...'']
                     else [Text ''Continue''])]]
            @ [Elem ''p''
                 [Text ''Get your key from'', Text '' '',
                  Link ''https://console.anthropic.com/settings/keys''
                    [Text ''console.anthropic.com'']]]
            @ (case runtimeDetails loc of
                 None \<Rightarrow> []
               | Some v \<Rightarrow>
                   shown_if runtimeReady
                     (Elem ''p'' [Icon ''Check'', Text ''Node.js '', Text v, Text '' ready''])))])"

subsection \<open>States the application can reach\<close>


section \<open>Properties of the sidecar\<close>

subsection \<open>Auxiliary facts\<close>

lemmas nat_to_string_unfold =
  nat_to_string.simps [of "numeral k" for k] nat_to_string.simps [of 0]
  nat_to_string.simps [of "Suc 0"]

lemma port_string: "nat_to_string OPENCLAW_PORT = ''18789''"
  by (simp add: OPENCLAW_PORT_def nat_to_string_unfold digit_char_def)

lemma int_port_string: "int_to_string (int OPENCLAW_PORT) = ''18789''"
  by (simp add: int_to_string_def port_string)

lemma health_ok_body:
  "JSON_stringify
     [(''status'', JString ''ok''), (''openclaw'', JString ''running''),
      (''wsPort'', JNumber (int OPENCLAW_PORT))] =
   ''{'' @ quoted ''status'' @ '':'' @ quoted ''ok'' @ '','' @ quoted ''openclaw'' @ '':''
     @ quoted ''running'' @ '','' @ quoted ''wsPort'' @ '':18789}''"
  by (simp add: JSON_stringify_def json_quote_def json_escape_def int_port_string)

lemma health_starting_body:
  "JSON_stringify [(''status'', JString ''starting'')] =
   ''{'' @ quoted ''status'' @ '':'' @ quoted ''starting'' @ ''}''"
  by (simp add: JSON_stringify_def json_quote_def json_escape_def)

text \<open>The two string tests mean what their names say.\<close>

lemma startsWith_iff: "startsWith s p \<longleftrightarrow> (\<exists>v. s = p @ v)"
  by (induction s p rule: startsWith.induct) auto

lemma includes_str_iff: "includes_str s p \<longleftrightarrow> (\<exists>u v. s = u @ p @ v)"
proof (induction s)
  case Nil
  then show ?case by simp
next
  case (Cons c cs)
  show ?case
  proof
    assume "includes_str (c # cs) p"
    then consider "startsWith (c # cs) p" | "includes_str cs p" by auto
    then show "\<exists>u v. c # cs = u @ p @ v"
    proof cases
      case 1
      then obtain v where "c # cs = p @ v" using startsWith_iff by blast
      then have "c # cs = [] @ p @ v" by simp
      then show ?thesis by blast
    next
      case 2
      then obtain u v where "cs = u @ p @ v" using Cons.IH by blast
      then have "c # cs = (c # u) @ p @ v" by simp
      then show ?thesis by blast
    qed
  next
    assume "\<exists>u v. c # cs = u @ p @ v"
    then obtain u v where uv: "c # cs = u @ p @ v" by blast
    show "includes_str (c # cs) p"
    proof (cases "u = []")
      case True
      with uv have "startsWith (c # cs) p" using startsWith_iff by auto
      then show ?thesis by simp
    next
      case False
      then obtain a u' where "u = a # u'" by (cases u) auto
      with uv have "cs = u' @ p @ v" by simp
      then have "includes_str cs p" using Cons.IH by blast
      then show ?thesis by simp
    qed
  qed
qed

lemma run_append:
  "run tok (es @ fs) s = (case run tok es s of None \<Rightarrow> None | Some s' \<Rightarrow> run tok fs s')"
  by (induction es arbitrary: s) (auto split: option.splits)

text \<open>
  One round of the crash loop: from a state whose only timer is the health timer of the
  live child \<open>k\<close>, the round ends in such a state for child \<open>k + 1\<close>, 5000 ms later.
\<close>

lemma crash_cycle:
  assumes "timers s = [(clock s + 3000, MarkHealthy)]" and "children s = [k]"
    and "length (spawned s) = Suc k"
  shows "\<exists>s'. run tok [Close k (Some 1), Elapse 3000, Fire, Elapse 2000, Fire] s = Some s'
           \<and> timers s' = [(clock s' + 3000, MarkHealthy)] \<and> children s' = [Suc k]
           \<and> spawned s' = spawned s @ [gateway_args tok]
           \<and> clock s' = clock s + 5000"
  using assms
  by (simp add: step_def on_close_def setTimeout_def run_callback_def startOpenClaw_def Let_def)

lemma crash_loop_run:
  assumes "timers s = [(clock s + 3000, MarkHealthy)]" and "children s = [k]"
    and "length (spawned s) = Suc k"
  shows "\<exists>s'. run tok (crash_loop k n) s = Some s'
           \<and> timers s' = [(clock s' + 3000, MarkHealthy)] \<and> children s' = [k + n]
           \<and> spawned s' = spawned s @ replicate n (gateway_args tok)
           \<and> clock s' = clock s + 5000 * n"
  using assms
proof (induction n arbitrary: s k)
  case 0
  then show ?case by simp
next
  case (Suc n)
  from crash_cycle [OF Suc.prems, of tok]
  obtain s1 where s1:
    "run tok [Close k (Some 1), Elapse 3000, Fire, Elapse 2000, Fire] s = Some s1"
    "timers s1 = [(clock s1 + 3000, MarkHealthy)]" "children s1 = [Suc k]"
    "spawned s1 = spawned s @ [gateway_args tok]" "clock s1 = clock s + 5000"
    by blast
  have len: "length (spawned s1) = Suc (Suc k)"
    using s1(4) Suc.prems(3) by simp
  from Suc.IH [OF s1(2) s1(3) len]
  obtain s' where s':
    "run tok (crash_loop (Suc k) n) s1 = Some s'"
    "timers s' = [(clock s' + 3000, MarkHealthy)]" "children s' = [Suc k + n]"
    "spawned s' = spawned s1 @ replicate n (gateway_args tok)"
    "clock s' = clock s1 + 5000 * n"
    by blast
  have "run tok (crash_loop k (Suc n)) s = Some s'"
    using s1(1) s'(1) by (simp only: crash_loop.simps run_append) simp
  moreover have "spawned s' = spawned s @ replicate (Suc n) (gateway_args tok)"
    using s'(4) s1(4) by simp
  moreover have "clock s' = clock s + 5000 * Suc n"
    using s'(5) s1(5) by simp
  moreover have "children s' = [k + Suc n]"
    using s'(3) by simp
  ultimately show ?case
    using s'(2) by blast
qed

text \<open>A chunk without a marker leaves the health flag as it is.\<close>

lemma stdout_without_marker:
  "\<not> includes_str chunk ''listening'' \<Longrightarrow> \<not> includes_str chunk ''started'' \<Longrightarrow>
   on_stdout_data chunk s = s"
  by (simp add: on_stdout_data_def)

text \<open>
  A child that closes before its health timer is due: the timer still fires, and the
  sidecar answers 200 with no child alive.
\<close>

lemma healthy_without_child:
  assumes "timers s = []" and "children s = []"
  shows "\<exists>s'. run tok [Close (length (spawned s)) code, Elapse 3000, Fire] (startOpenClaw tok s)
                 = Some s'
           \<and> children s' = [] \<and> openclawHealthy s' \<and> status (server s' ''/health'') = 200"
  using assms
  by (simp add: step_def on_close_def setTimeout_def run_callback_def startOpenClaw_def Let_def
      server_def)

subsection \<open>The health endpoint\<close>

text \<open>
  C1, as the claim states it, fails: the target \<^verbatim>\<open>/health?x=1\<close> has the path
  \<^verbatim>\<open>/health\<close>, and it is answered with a redirect, healthy or not, since the handler
  compares the whole target.
\<close>

theorem health_with_query_is_redirected:
  "path_of ''/health?x=1'' = ''/health''
   \<and> server initial_sidecar ''/health?x=1'' =
       \<lparr>status = 302, headers = [(''Location'', ''http://localhost:18789/health?x=1'')],
        body = []\<rparr>
   \<and> server (initial_sidecar\<lparr>openclawHealthy := True\<rparr>) ''/health?x=1'' =
       \<lparr>status = 302, headers = [(''Location'', ''http://localhost:18789/health?x=1'')],
        body = []\<rparr>"
  by (simp add: path_of_def server_def port_string)

text \<open>
  C1, amended. A request whose target is exactly \<^verbatim>\<open>/health\<close> is answered with status
  200 and the JSON object with the members \<^verbatim>\<open>status\<close>, \<^verbatim>\<open>openclaw\<close> and \<^verbatim>\<open>wsPort\<close> when
  the gateway is marked healthy, and with status 503 and the body
  \<^verbatim>\<open>{"status":"starting"}\<close> when it is not.
\<close>

theorem health_endpoint:
  "target = ''/health'' \<Longrightarrow>
   server s target =
     (if openclawHealthy s then
        \<lparr>status = 200, headers = [(''Content-Type'', ''application/json'')],
         body = ''{'' @ quoted ''status'' @ '':'' @ quoted ''ok'' @ '','' @ quoted ''openclaw''
                @ '':'' @ quoted ''running'' @ '','' @ quoted ''wsPort'' @ '':18789}''\<rparr>
      else
        \<lparr>status = 503, headers = [(''Content-Type'', ''application/json'')],
         body = ''{'' @ quoted ''status'' @ '':'' @ quoted ''starting'' @ ''}''\<rparr>)"
  unfolding server_def health_ok_body health_starting_body by simp

theorem health_endpoint_witness:
  "status (server initial_sidecar ''/health'') = 503
   \<and> body (server initial_sidecar ''/health'')
       = ''{'' @ quoted ''status'' @ '':'' @ quoted ''starting'' @ ''}''
   \<and> status (server (initial_sidecar\<lparr>openclawHealthy := True\<rparr>) ''/health'') = 200
   \<and> body (server (initial_sidecar\<lparr>openclawHealthy := True\<rparr>) ''/health'')
       = ''{'' @ quoted ''status'' @ '':'' @ quoted ''ok'' @ '','' @ quoted ''openclaw''
         @ '':'' @ quoted ''running'' @ '','' @ quoted ''wsPort'' @ '':18789}''"
  using health_endpoint [of "''/health''" initial_sidecar]
    health_endpoint [of "''/health''" "initial_sidecar\<lparr>openclawHealthy := True\<rparr>"]
  by (simp add: initial_sidecar_def)

subsection \<open>Redirects\<close>

text \<open>
  C2, as the claim states it, fails: the target \<^verbatim>\<open>/\<close> is not \<^verbatim>\<open>/health\<close>, and it is
  answered as a health check (503 here, with the JSON content type), not with a redirect.
\<close>

theorem root_is_not_redirected:
  "''/'' \<noteq> ''/health''
   \<and> status (server initial_sidecar ''/'') = 503
   \<and> headers (server initial_sidecar ''/'') = [(''Content-Type'', ''application/json'')]"
  by (simp add: server_def initial_sidecar_def)

text \<open>
  C2, amended. A request whose target is neither \<^verbatim>\<open>/health\<close> nor \<^verbatim>\<open>/\<close> is answered
  with status 302 and the location \<^verbatim>\<open>http://localhost:18789\<close> followed by the target, and
  an empty body. The target \<^verbatim>\<open>/\<close> is answered like \<^verbatim>\<open>/health\<close> in every state: 200 with
  the JSON object when the gateway is marked healthy, 503 with
  \<^verbatim>\<open>{"status":"starting"}\<close> when it is not.
\<close>

theorem redirect_other_targets:
  "(target \<noteq> ''/health'' \<and> target \<noteq> ''/'' \<longrightarrow>
      server s target =
        \<lparr>status = 302, headers = [(''Location'', ''http://localhost:18789'' @ target)],
         body = []\<rparr>)
   \<and> server s ''/'' = server s ''/health''
   \<and> server s ''/'' =
       (if openclawHealthy s then
          \<lparr>status = 200, headers = [(''Content-Type'', ''application/json'')],
           body = ''{'' @ quoted ''status'' @ '':'' @ quoted ''ok'' @ '','' @ quoted ''openclaw''
                  @ '':'' @ quoted ''running'' @ '','' @ quoted ''wsPort'' @ '':18789}''\<rparr>
        else
          \<lparr>status = 503, headers = [(''Content-Type'', ''application/json'')],
           body = ''{'' @ quoted ''status'' @ '':'' @ quoted ''starting'' @ ''}''\<rparr>)"
proof -
  have "server s target =
      \<lparr>status = 302, headers = [(''Location'', ''http://localhost:18789'' @ target)],
       body = []\<rparr>"
    if "target \<noteq> ''/health''" and "target \<noteq> ''/''"
    using that by (simp add: server_def port_string)
  moreover have "server s ''/'' = server s ''/health''"
    by (simp add: server_def)
  moreover have "server s ''/'' =
      (if openclawHealthy s then
         \<lparr>status = 200, headers = [(''Content-Type'', ''application/json'')],
          body = ''{'' @ quoted ''status'' @ '':'' @ quoted ''ok'' @ '','' @ quoted ''openclaw''
                 @ '':'' @ quoted ''running'' @ '','' @ quoted ''wsPort'' @ '':18789}''\<rparr>
       else
         \<lparr>status = 503, headers = [(''Content-Type'', ''application/json'')],
          body = ''{'' @ quoted ''status'' @ '':'' @ quoted ''starting'' @ ''}''\<rparr>)"
    unfolding server_def health_ok_body health_starting_body by simp
  ultimately show ?thesis
    by blast
qed

theorem redirect_other_targets_witness:
  "''/chat?session=main'' \<noteq> ''/health'' \<and> ''/chat?session=main'' \<noteq> ''/''
   \<and> server initial_sidecar ''/chat?session=main'' =
       \<lparr>status = 302,
        headers = [(''Location'', ''http://localhost:18789/chat?session=main'')],
        body = []\<rparr>
   \<and> server (initial_sidecar\<lparr>openclawHealthy := True\<rparr>) ''/chat?session=main'' =
       \<lparr>status = 302,
        headers = [(''Location'', ''http://localhost:18789/chat?session=main'')],
        body = []\<rparr>
   \<and> status (server initial_sidecar ''/'') = 503
   \<and> status (server (initial_sidecar\<lparr>openclawHealthy := True\<rparr>) ''/'') = 200
   \<and> server (initial_sidecar\<lparr>openclawHealthy := True\<rparr>) ''/''
       = server (initial_sidecar\<lparr>openclawHealthy := True\<rparr>) ''/health''"
proof -
  let ?h = "initial_sidecar\<lparr>openclawHealthy := True\<rparr>"
  note a = redirect_other_targets [of "''/chat?session=main''" initial_sidecar]
  note b = redirect_other_targets [of "''/chat?session=main''" ?h]
  have "server initial_sidecar ''/chat?session=main'' =
      \<lparr>status = 302,
       headers = [(''Location'', ''http://localhost:18789/chat?session=main'')],
       body = []\<rparr>"
    using a by simp
  moreover have "server ?h ''/chat?session=main'' =
      \<lparr>status = 302,
       headers = [(''Location'', ''http://localhost:18789/chat?session=main'')],
       body = []\<rparr>"
    using b by simp
  moreover have "status (server initial_sidecar ''/'') = 503"
    using a [THEN conjunct2, THEN conjunct2] by (simp add: initial_sidecar_def)
  moreover have "status (server ?h ''/'') = 200"
    using b [THEN conjunct2, THEN conjunct2] by (simp add: initial_sidecar_def)
  moreover have "server ?h ''/'' = server ?h ''/health''"
    using b by blast
  ultimately show ?thesis
    by simp
qed

subsection \<open>Restart on exit\<close>

text \<open>
  C3. In every state, the close handler marks the sidecar unhealthy and registers
  \<^verbatim>\<open>startOpenClaw\<close> to run 5000 ms later: the delay does not depend on the state, so it
  is the same at every restart. With no other timer pending, the gateway is not spawned
  again before the 5000 ms have passed, and it is spawned when they have. There is no
  limit: after any number \<open>n\<close> of closes, each followed by the restart, the sidecar has
  spawned \<open>n + 1\<close> children and 5000 ms times \<open>n\<close> have passed.
\<close>

theorem restart_after_fixed_delay:
  "openclawHealthy (on_close code s) = False
   \<and> timers (on_close code s) = timers s @ [(clock s + 5000, StartOpenClaw)]
   \<and> (timers s = [] \<longrightarrow>
        (\<forall>d<5000. run tok [Elapse d, Fire] (on_close code s) = None)
        \<and> run tok [Elapse 5000, Fire] (on_close code s)
            = Some (startOpenClaw tok (s\<lparr>openclawHealthy := False, clock := clock s + 5000\<rparr>)))
   \<and> (\<exists>s'. run tok (crash_loop 0 n) (startOpenClaw tok initial_sidecar) = Some s'
          \<and> length (spawned s') = Suc n \<and> clock s' = 5000 * n)"
proof -
  let ?s0 = "startOpenClaw tok initial_sidecar"
  have a: "timers ?s0 = [(clock ?s0 + 3000, MarkHealthy)]" "children ?s0 = [0]"
    "length (spawned ?s0) = Suc 0" "clock ?s0 = 0" "spawned ?s0 = [gateway_args tok]"
    by (simp_all add: startOpenClaw_def initial_sidecar_def setTimeout_def Let_def)
  from crash_loop_run [OF a(1) a(2) a(3), of tok n]
  obtain s' where "run tok (crash_loop 0 n) ?s0 = Some s'"
    "spawned s' = spawned ?s0 @ replicate n (gateway_args tok)"
    "clock s' = clock ?s0 + 5000 * n"
    by blast
  then have loop: "\<exists>s'. run tok (crash_loop 0 n) ?s0 = Some s'
      \<and> length (spawned s') = Suc n \<and> clock s' = 5000 * n"
    using a(4) a(5) by simp
  have early: "\<forall>d<5000. run tok [Elapse d, Fire] (on_close code s) = None" if "timers s = []"
    using that by (simp add: on_close_def setTimeout_def step_def)
  have due: "run tok [Elapse 5000, Fire] (on_close code s)
      = Some (startOpenClaw tok (s\<lparr>openclawHealthy := False, clock := clock s + 5000\<rparr>))"
    if "timers s = []"
    using that
    by (simp add: on_close_def setTimeout_def step_def run_callback_def startOpenClaw_def Let_def)
  have "openclawHealthy (on_close code s) = False"
    by (simp add: on_close_def setTimeout_def)
  moreover have "timers (on_close code s) = timers s @ [(clock s + 5000, StartOpenClaw)]"
    by (simp add: on_close_def setTimeout_def)
  ultimately show ?thesis
    using loop early due by blast
qed

theorem restart_after_fixed_delay_witness:
  "openclawHealthy (on_close (Some 1) (initial_sidecar\<lparr>openclawHealthy := True\<rparr>)) = False
   \<and> timers (on_close (Some 1) (initial_sidecar\<lparr>openclawHealthy := True\<rparr>))
       = [(5000, StartOpenClaw)]
   \<and> run None [Elapse 4999, Fire] (on_close (Some 1) (initial_sidecar\<lparr>openclawHealthy := True\<rparr>))
       = None
   \<and> run None [Elapse 5000, Fire] (on_close (Some 1) (initial_sidecar\<lparr>openclawHealthy := True\<rparr>))
       = Some (startOpenClaw None (initial_sidecar\<lparr>clock := 5000\<rparr>))
   \<and> (\<exists>s'. run None (crash_loop 0 3) (startOpenClaw None initial_sidecar) = Some s'
          \<and> length (spawned s') = 4 \<and> clock s' = 15000)"
  using restart_after_fixed_delay
    [where code = "Some 1" and s = "initial_sidecar\<lparr>openclawHealthy := True\<rparr>"
       and tok = None and n = 3]
  by (simp add: initial_sidecar_def)

subsection \<open>Health from the child's output\<close>

text \<open>
  C4. A stdout chunk that contains \<^verbatim>\<open>listening\<close> or \<^verbatim>\<open>started\<close> marks the sidecar healthy
  and changes nothing else; this is what the chunk does when it comes from the child that
  \<^verbatim>\<open>startOpenClaw\<close> has just spawned.
\<close>

theorem stdout_marker_marks_healthy:
  "chunk = u @ ''listening'' @ v \<or> chunk = u @ ''started'' @ v \<Longrightarrow>
   on_stdout_data chunk s = s\<lparr>openclawHealthy := True\<rparr>
   \<and> step tok (Stdout (length (spawned s)) chunk) (startOpenClaw tok s)
       = Some ((startOpenClaw tok s)\<lparr>openclawHealthy := True\<rparr>)"
proof -
  assume "chunk = u @ ''listening'' @ v \<or> chunk = u @ ''started'' @ v"
  then have "includes_str chunk ''listening'' \<or> includes_str chunk ''started''"
    unfolding includes_str_iff by blast
  then have m: "on_stdout_data chunk t = t\<lparr>openclawHealthy := True\<rparr>" for t
    by (simp add: on_stdout_data_def)
  have "length (spawned s) \<in> set (children (startOpenClaw tok s))"
    by (simp add: startOpenClaw_def setTimeout_def Let_def)
  then show ?thesis
    using m by (simp add: step_def)
qed

theorem stdout_marker_marks_healthy_witness:
  "''Gateway listening on 18789'' = ''Gateway '' @ ''listening'' @ '' on 18789''
   \<and> openclawHealthy (on_stdout_data ''Gateway listening on 18789'' initial_sidecar)
   \<and> step None (Stdout 0 ''Gateway listening on 18789'') (startOpenClaw None initial_sidecar)
       = Some ((startOpenClaw None initial_sidecar)\<lparr>openclawHealthy := True\<rparr>)"
  using stdout_marker_marks_healthy
    [where chunk = "''Gateway listening on 18789''" and u = "''Gateway ''"
       and v = "'' on 18789''" and s = initial_sidecar and tok = None]
  by (simp add: initial_sidecar_def)

subsection \<open>Health from the startup timer\<close>

text \<open>
  C8. Every call of \<^verbatim>\<open>startOpenClaw\<close> registers a timer due 3000 ms later whose
  callback marks the sidecar healthy in whatever state it runs. With no other timer
  pending, 3000 ms after the spawn and without any chunk on stdout the sidecar is healthy
  and answers \<^verbatim>\<open>/health\<close> with 200.
\<close>

theorem healthy_after_three_seconds:
  "(clock s + 3000, MarkHealthy) \<in> set (timers (startOpenClaw tok s))
   \<and> openclawHealthy (run_callback tok MarkHealthy s)
   \<and> (timers s = [] \<longrightarrow>
        (\<exists>s'. run tok [Elapse 3000, Fire] (startOpenClaw tok s) = Some s'
           \<and> clock s' = clock s + 3000 \<and> openclawHealthy s'
           \<and> status (server s' ''/health'') = 200))"
  by (simp add: startOpenClaw_def setTimeout_def run_callback_def step_def Let_def server_def)

theorem healthy_after_three_seconds_witness:
  "(3000, MarkHealthy) \<in> set (timers (startOpenClaw None initial_sidecar))
   \<and> openclawHealthy (run_callback None MarkHealthy initial_sidecar)
   \<and> timers initial_sidecar = []
   \<and> (\<exists>s'. run None [Elapse 3000, Fire] (startOpenClaw None initial_sidecar) = Some s'
         \<and> clock s' = 3000 \<and> openclawHealthy s' \<and> status (server s' ''/health'') = 200)"
  using healthy_after_three_seconds [of initial_sidecar None]
  by (simp add: initial_sidecar_def)

section \<open>Properties of the desktop application\<close>

subsection \<open>Auxiliary facts\<close>

text \<open>Each setter, written as an update of the state record.\<close>

lemma setters_update:
  "setScreen v s = s\<lparr>screen := v\<rparr>"
  "setGatewayStatus g s = s\<lparr>gatewayStatus := g\<rparr>"
  "setRuntimeStatus r s = s\<lparr>runtimeStatus := r\<rparr>"
  "setApiKeyConfigured b s = s\<lparr>apiKeyConfigured := b\<rparr>"
  "setError e s = s\<lparr>error := e\<rparr>"
  by (simp_all add: setScreen_def setGatewayStatus_def setRuntimeStatus_def
      setApiKeyConfigured_def setError_def set_state_def no_fields_def)

lemma trim_sample: "trim ''  sk-ant-api03-abc '' = ''sk-ant-api03-abc''"
  by (simp add: trim_def is_white_space_def)

lemma trim_blank: "trim ''   '' = []"
  by (simp add: trim_def is_white_space_def)


text \<open>The store keeps whatever progress a caller hands it; it checks no range.\<close>

lemma setRuntimeStatus_keeps_progress:
  "runtimeStatus (setRuntimeStatus (Downloading p) s) = Downloading p"
  by (simp add: setters_update)

subsection \<open>The store's setters\<close>

text \<open>
  C10. Each of the five setters puts its argument into its own field and leaves the other
  four fields of the state as they were.
\<close>

theorem setters_frame:
  "screen (setScreen v s) = v
   \<and> gatewayStatus (setScreen v s) = gatewayStatus s
   \<and> runtimeStatus (setScreen v s) = runtimeStatus s
   \<and> apiKeyConfigured (setScreen v s) = apiKeyConfigured s
   \<and> error (setScreen v s) = error s
   \<and> gatewayStatus (setGatewayStatus g s) = g
   \<and> screen (setGatewayStatus g s) = screen s
   \<and> runtimeStatus (setGatewayStatus g s) = runtimeStatus s
   \<and> apiKeyConfigured (setGatewayStatus g s) = apiKeyConfigured s
   \<and> error (setGatewayStatus g s) = error s
   \<and> runtimeStatus (setRuntimeStatus r s) = r
   \<and> screen (setRuntimeStatus r s) = screen s
   \<and> gatewayStatus (setRuntimeStatus r s) = gatewayStatus s
   \<and> apiKeyConfigured (setRuntimeStatus r s) = apiKeyConfigured s
   \<and> error (setRuntimeStatus r s) = error s
   \<and> apiKeyConfigured (setApiKeyConfigured b s) = b
   \<and> screen (setApiKeyConfigured b s) = screen s
   \<and> gatewayStatus (setApiKeyConfigured b s) = gatewayStatus s
   \<and> runtimeStatus (setApiKeyConfigured b s) = runtimeStatus s
   \<and> error (setApiKeyConfigured b s) = error s
   \<and> error (setError e s) = e
   \<and> screen (setError e s) = screen s
   \<and> gatewayStatus (setError e s) = gatewayStatus s
   \<and> runtimeStatus (setError e s) = runtimeStatus s
   \<and> apiKeyConfigured (setError e s) = apiKeyConfigured s"
  by (simp add: setters_update)

theorem setters_frame_witness:
  "setScreen ScreenChat initial_state = initial_state\<lparr>screen := ScreenChat\<rparr>
   \<and> setGatewayStatus Starting initial_state = initial_state\<lparr>gatewayStatus := Starting\<rparr>
   \<and> setRuntimeStatus (Installed ''22.1.0'') initial_state
       = initial_state\<lparr>runtimeStatus := Installed ''22.1.0''\<rparr>
   \<and> setApiKeyConfigured True initial_state = initial_state\<lparr>apiKeyConfigured := True\<rparr>
   \<and> setError (Some ''no network'') initial_state
       = initial_state\<lparr>error := Some ''no network''\<rparr>"
  using setters_frame
    [where s = initial_state and v = ScreenChat and g = Starting
       and r = "Installed ''22.1.0''" and b = True and e = "Some ''no network''"]
  by (simp add: initial_state_def)

subsection \<open>Saving the key\<close>

text \<open>
  C5. When the key is not blank and the runtime is installed: if \<^verbatim>\<open>tauri.setApiKey\<close>
  or \<^verbatim>\<open>tauri.startGateway\<close> throws, \<^verbatim>\<open>handleSave\<close> ends with \<^verbatim>\<open>gatewayStatus\<close> in its
  error variant carrying the thrown message, with \<^verbatim>\<open>error\<close> set to that message, and with
  the screen as it was; if both succeed, it ends with \<^verbatim>\<open>gatewayStatus\<close> running with the
  returned info and the screen set to chat.
\<close>

theorem handleSave_outcomes:
  assumes "trim (apiKey loc) \<noteq> []" and "runtimeStatus st = Installed v"
  shows "(setApiKey_result tauri (trim (apiKey loc)) = Some err \<longrightarrow>
            (case handleSave tauri st loc of (st', loc', calls) \<Rightarrow>
               gatewayStatus st' = GatewayError (error_message err)
               \<and> error st' = Some (error_message err)
               \<and> screen st' = screen st
               \<and> calls = [SetApiKey (trim (apiKey loc))]))
       \<and> (setApiKey_result tauri (trim (apiKey loc)) = None
            \<and> startGateway_result tauri = Inl err \<longrightarrow>
            (case handleSave tauri st loc of (st', loc', calls) \<Rightarrow>
               gatewayStatus st' = GatewayError (error_message err)
               \<and> error st' = Some (error_message err)
               \<and> screen st' = screen st
               \<and> calls = [SetApiKey (trim (apiKey loc)), StartGateway]))
       \<and> (setApiKey_result tauri (trim (apiKey loc)) = None
            \<and> startGateway_result tauri = Inr info \<longrightarrow>
            (case handleSave tauri st loc of (st', loc', calls) \<Rightarrow>
               gatewayStatus st' = Running info
               \<and> screen st' = ScreenChat
               \<and> error st' = None
               \<and> calls = [SetApiKey (trim (apiKey loc)), StartGateway]))"
  using assms
  by (simp add: handleSave_def handleSave_catch_def is_installed_def setters_update Let_def)

theorem handleSave_outcomes_witness:
  "trim ''  sk-ant-api03-abc '' \<noteq> []
   \<and> (case handleSave
          \<lparr>setApiKey_result = (\<lambda>k. Some (ErrorObject ''keychain locked'')),
           startGateway_result = Inl (ErrorObject ''unused''), installRuntime_result = None\<rparr>
          (initial_state\<lparr>screen := ScreenSettings, runtimeStatus := Installed ''22.1.0''\<rparr>)
          \<lparr>apiKey = ''  sk-ant-api03-abc '', saving = False, runtimeDetails = None\<rparr>
        of (st', loc', calls) \<Rightarrow>
          gatewayStatus st' = GatewayError ''keychain locked''
          \<and> error st' = Some ''keychain locked'' \<and> screen st' = ScreenSettings
          \<and> calls = [SetApiKey ''sk-ant-api03-abc''])
   \<and> (case handleSave
          \<lparr>setApiKey_result = (\<lambda>k. None),
           startGateway_result = Inl (OtherValue ''port in use''), installRuntime_result = None\<rparr>
          (initial_state\<lparr>screen := ScreenSettings, runtimeStatus := Installed ''22.1.0''\<rparr>)
          \<lparr>apiKey = ''  sk-ant-api03-abc '', saving = False, runtimeDetails = None\<rparr>
        of (st', loc', calls) \<Rightarrow>
          gatewayStatus st' = GatewayError ''port in use''
          \<and> error st' = Some ''port in use'' \<and> screen st' = ScreenSettings
          \<and> calls = [SetApiKey ''sk-ant-api03-abc'', StartGateway])
   \<and> (case handleSave
          \<lparr>setApiKey_result = (\<lambda>k. None),
           startGateway_result =
             Inr \<lparr>url = ''ws://localhost:18789'', port = 18789, token = ''t0''\<rparr>,
           installRuntime_result = None\<rparr>
          (initial_state\<lparr>screen := ScreenSettings, runtimeStatus := Installed ''22.1.0''\<rparr>)
          \<lparr>apiKey = ''  sk-ant-api03-abc '', saving = False, runtimeDetails = None\<rparr>
        of (st', loc', calls) \<Rightarrow>
          gatewayStatus st'
            = Running \<lparr>url = ''ws://localhost:18789'', port = 18789, token = ''t0''\<rparr>
          \<and> screen st' = ScreenChat \<and> error st' = None
          \<and> calls = [SetApiKey ''sk-ant-api03-abc'', StartGateway])"
  using
    handleSave_outcomes
      [where loc = "\<lparr>apiKey = ''  sk-ant-api03-abc '', saving = False, runtimeDetails = None\<rparr>"
         and st = "initial_state\<lparr>screen := ScreenSettings, runtimeStatus := Installed ''22.1.0''\<rparr>"
         and v = "''22.1.0''" and err = "ErrorObject ''keychain locked''"
         and tauri = "\<lparr>setApiKey_result = (\<lambda>k. Some (ErrorObject ''keychain locked'')),
           startGateway_result = Inl (ErrorObject ''unused''), installRuntime_result = None\<rparr>"]
    handleSave_outcomes
      [where loc = "\<lparr>apiKey = ''  sk-ant-api03-abc '', saving = False, runtimeDetails = None\<rparr>"
         and st = "initial_state\<lparr>screen := ScreenSettings, runtimeStatus := Installed ''22.1.0''\<rparr>"
         and v = "''22.1.0''" and err = "OtherValue ''port in use''"
         and tauri = "\<lparr>setApiKey_result = (\<lambda>k. None),
           startGateway_result = Inl (OtherValue ''port in use''), installRuntime_result = None\<rparr>"]
    handleSave_outcomes
      [where loc = "\<lparr>apiKey = ''  sk-ant-api03-abc '', saving = False, runtimeDetails = None\<rparr>"
         and st = "initial_state\<lparr>screen := ScreenSettings, runtimeStatus := Installed ''22.1.0''\<rparr>"
         and v = "''22.1.0''"
         and info = "\<lparr>url = ''ws://localhost:18789'', port = 18789, token = ''t0''\<rparr>"
         and tauri = "\<lparr>setApiKey_result = (\<lambda>k. None),
           startGateway_result =
             Inr \<lparr>url = ''ws://localhost:18789'', port = 18789, token = ''t0''\<rparr>,
           installRuntime_result = None\<rparr>"]
  by (simp add: trim_sample initial_state_def)

text \<open>
  C9, as the claim states it, fails in its last part: with a blank key and the runtime not
  installed, \<^verbatim>\<open>handleSave\<close> returns at its first test and does not set the error message.
\<close>

theorem blank_key_sets_no_error:
  "\<not> is_installed (runtimeStatus initial_state)
   \<and> error initial_state = None
   \<and> handleSave
        \<lparr>setApiKey_result = (\<lambda>k. None), startGateway_result = Inl (ErrorObject ''unused''),
         installRuntime_result = None\<rparr>
        initial_state \<lparr>apiKey = ''   '', saving = False, runtimeDetails = None\<rparr>
       = (initial_state, \<lparr>apiKey = ''   '', saving = False, runtimeDetails = None\<rparr>, [])"
  by (simp add: handleSave_def trim_blank initial_state_def is_installed_def)

text \<open>
  C9, amended. Unless the key is non-empty after trimming and the runtime is installed,
  \<^verbatim>\<open>handleSave\<close> issues no call of the bridge and leaves \<^verbatim>\<open>gatewayStatus\<close> and the screen
  as they were. When the key is empty after trimming it changes nothing at all; when the
  key is non-empty after trimming and the runtime is not installed it sets the error
  message, changes nothing else, and returns.
\<close>

theorem handleSave_guards:
  "(\<not> (trim (apiKey loc) \<noteq> [] \<and> is_installed (runtimeStatus st)) \<longrightarrow>
      (case handleSave tauri st loc of (st', loc', calls) \<Rightarrow>
         calls = [] \<and> gatewayStatus st' = gatewayStatus st \<and> screen st' = screen st))
   \<and> (trim (apiKey loc) = [] \<longrightarrow> handleSave tauri st loc = (st, loc, []))
   \<and> (trim (apiKey loc) \<noteq> [] \<and> \<not> is_installed (runtimeStatus st) \<longrightarrow>
        handleSave tauri st loc =
          (st\<lparr>error := Some ''Please wait for the runtime to finish installing.''\<rparr>, loc, []))"
  by (simp add: handleSave_def setters_update)

theorem handleSave_guards_witness:
  "trim ''  sk-ant-api03-abc '' \<noteq> []
   \<and> \<not> is_installed (Downloading 40)
   \<and> handleSave
        \<lparr>setApiKey_result = (\<lambda>k. None), startGateway_result = Inl (ErrorObject ''unused''),
         installRuntime_result = None\<rparr>
        (initial_state\<lparr>runtimeStatus := Downloading 40\<rparr>)
        \<lparr>apiKey = ''  sk-ant-api03-abc '', saving = False, runtimeDetails = None\<rparr>
       = (initial_state
            \<lparr>runtimeStatus := Downloading 40,
             error := Some ''Please wait for the runtime to finish installing.''\<rparr>,
          \<lparr>apiKey = ''  sk-ant-api03-abc '', saving = False, runtimeDetails = None\<rparr>, [])
   \<and> trim ''   '' = []
   \<and> handleSave
        \<lparr>setApiKey_result = (\<lambda>k. None), startGateway_result = Inl (ErrorObject ''unused''),
         installRuntime_result = None\<rparr>
        (initial_state\<lparr>runtimeStatus := Installed ''22.1.0''\<rparr>)
        \<lparr>apiKey = ''   '', saving = False, runtimeDetails = None\<rparr>
       = (initial_state\<lparr>runtimeStatus := Installed ''22.1.0''\<rparr>,
          \<lparr>apiKey = ''   '', saving = False, runtimeDetails = None\<rparr>, [])"
  using
    handleSave_guards
      [where loc = "\<lparr>apiKey = ''  sk-ant-api03-abc '', saving = False, runtimeDetails = None\<rparr>"
         and st = "initial_state\<lparr>runtimeStatus := Downloading 40\<rparr>"
         and tauri = "\<lparr>setApiKey_result = (\<lambda>k. None),
           startGateway_result = Inl (ErrorObject ''unused''), installRuntime_result = None\<rparr>"]
    handleSave_guards
      [where loc = "\<lparr>apiKey = ''   '', saving = False, runtimeDetails = None\<rparr>"
         and st = "initial_state\<lparr>runtimeStatus := Installed ''22.1.0''\<rparr>"
         and tauri = "\<lparr>setApiKey_result = (\<lambda>k. None),
           startGateway_result = Inl (ErrorObject ''unused''), installRuntime_result = None\<rparr>"]
  by (simp add: trim_sample trim_blank is_installed_def initial_state_def)

subsection \<open>Showing a runtime error\<close>

text \<open>
  C6. When \<^verbatim>\<open>runtimeStatus\<close> is its error variant with message \<open>m\<close>, both screens show
  \<open>m\<close> unchanged. The loading screen is the icon, the heading and, when \<open>m\<close> is not
  empty, one paragraph whose only child is the text \<open>m\<close>; the text it shows is the heading
  followed by exactly \<open>m\<close>. The settings screen contains the panel of the error, and in it
  a paragraph whose only child is the text \<open>m\<close>.
\<close>

theorem runtime_error_shown_verbatim:
  assumes "runtimeStatus st = RuntimeError m"
  shows "Loading st =
           Elem ''div''
             [Elem ''div''
                ([Icon ''AlertCircle'', Elem ''p'' [Text ''Setup failed'']]
                 @ (if m = [] then [] else [Elem ''p'' [Text m]]))]
         \<and> text_content (Loading st) = ''Setup failed'' @ m
         \<and> runtime_panel (RuntimeError m) \<in> set (subtrees (Settings st loc))
         \<and> runtime_panel (RuntimeError m) =
             Elem ''div''
               [Elem ''div''
                  [Icon ''AlertCircle'',
                   Elem ''div''
                     [Elem ''p'' [Text ''Setup failed''], Elem ''p'' [Text m],
                      Button HandleInstallRuntime False [Text ''Try again'']]]]
         \<and> Elem ''p'' [Text m] \<in> set (subtrees (Settings st loc))"
  using assms
  by (simp add: Loading_def getStatusContent_def shown_if_text_def shown_if_def
      is_downloading_def Settings_def is_installed_def runtime_panel_def Let_def)

theorem runtime_error_shown_verbatim_witness:
  "runtimeStatus (initial_state\<lparr>runtimeStatus := RuntimeError ''Download failed: 404 <tar>''\<rparr>)
     = RuntimeError ''Download failed: 404 <tar>''
   \<and> text_content
        (Loading (initial_state\<lparr>runtimeStatus := RuntimeError ''Download failed: 404 <tar>''\<rparr>))
       = ''Setup failedDownload failed: 404 <tar>''
   \<and> Elem ''p'' [Text ''Download failed: 404 <tar>'']
       \<in> set (subtrees
             (Loading (initial_state\<lparr>runtimeStatus := RuntimeError ''Download failed: 404 <tar>''\<rparr>)))
   \<and> Elem ''p'' [Text ''Download failed: 404 <tar>'']
       \<in> set (subtrees
             (Settings (initial_state\<lparr>runtimeStatus := RuntimeError ''Download failed: 404 <tar>''\<rparr>)
                \<lparr>apiKey = [], saving = False, runtimeDetails = None\<rparr>))"
  using runtime_error_shown_verbatim
    [where st = "initial_state\<lparr>runtimeStatus := RuntimeError ''Download failed: 404 <tar>''\<rparr>"
       and m = "''Download failed: 404 <tar>''"
       and loc = "\<lparr>apiKey = [], saving = False, runtimeDetails = None\<rparr>"]
  by simp

subsection \<open>The range of the download progress\<close>



end
